theory Spec2Isabelle
  imports Complex_Main "HOL-Library.Product_Lexorder"
begin

section \<open>Data model\<close>

text \<open>
  A Python \<open>datetime.time\<close> is the tuple (hour, minute, second, microsecond); two naive
  times compare lexicographically on that tuple, which is the order
  \<open>Product_Lexorder\<close> puts on nested pairs. A \<open>datetime\<close> is a count of
  microseconds on the time line of the clock that produced it. Temperatures are the
  finite floats of the SQL \<open>FLOAT\<close> columns and of the \<open>value\<close> field, read as reals
  (their comparison is the comparison of the reals they denote).
\<close>

type_synonym time = "nat \<times> nat \<times> nat \<times> nat"

datatype exn =
    HTTPException nat string
  | MySQLError
  | InfluxError
  | ValueError
  | TypeError
  | AttributeError
  | RequestException

text \<open>
  What the SQL driver hands back for a \<open>TIME\<close> column: a \<open>timedelta\<close> (here its
  total microseconds), a string, or a value that is a \<open>time\<close> already. The handler
  tests for the first two with \<open>isinstance\<close> and leaves anything else as it is.
\<close>

datatype sql_time = TimeDelta int | Str string | TimeObj time

record room_row =
  r_id :: int
  r_user_id :: int
  r_name :: string

record settings_row =
  s_user_id :: int
  s_room_id :: int
  timezone :: string
  wanted_temp_day :: real
  wanted_temp_night :: real
  night_start :: sql_time
  night_end :: sql_time

record user_row =
  u_id :: int
  latitude :: real
  longitude :: real

text \<open>
  A point of the time-series bucket: measurement, the tags \<open>user_id\<close> and \<open>room_id\<close>
  (weather points carry no \<open>room_id\<close>), the field \<open>value\<close> and the timestamp. The tags
  are written as \<open>str(id)\<close> and compared with the decimal rendering of an integer, which
  is injective, so they are kept as integers.
\<close>

record point =
  measurement :: string
  tag_user_id :: int
  tag_room_id :: "int option"
  field_value :: real
  time_stamp :: int

datatype json =
    JNull
  | JBool bool
  | JNum real
  | JStr string
  | JArr "json list"
  | JObj "(string \<times> json) list"

text \<open>
  The answer of \<open>requests.get\<close>: the call raises, or there is a response with a status
  (one that \<open>raise_for_status\<close> lets pass, or not) and a body that decodes as JSON
  or does not.
\<close>

datatype http_result = RequestFails | Response bool "json option"

datatype influx_op = Write string int "int option" real | Query | Delete

text \<open>
  The collaborators outside the program, fixed during one call: the wall clock
  (\<open>now_at k\<close> is the \<open>k\<close>-th reading of \<open>datetime.now()\<close>), the library parsers, the
  weather provider, and whether MySQL and InfluxDB answer.
\<close>

record env =
  now_at :: "nat \<Rightarrow> int"
  strptime :: "string \<Rightarrow> time option"
  fromisoformat :: "string \<Rightarrow> int option"
  flux_time :: "string \<Rightarrow> int option"
  py_float :: "string \<Rightarrow> real option"
  http_get :: "user_row \<Rightarrow> http_result"
  mysql_up :: bool
  influx_ok :: "influx_op \<Rightarrow> bool"

text \<open>
  The mutable state: the three SQL tables, the bucket in write order, the number of
  clock readings taken so far and the seconds slept by the background task.
\<close>

record state =
  users :: "user_row list"
  rooms :: "room_row list"
  room_settings :: "settings_row list"
  bucket :: "point list"
  clock :: nat
  slept :: nat

section \<open>Clock\<close>

definition datetime_now :: "env \<Rightarrow> state \<Rightarrow> int \<times> state" where
  "datetime_now e s = (now_at e (clock s), s\<lparr>clock := Suc (clock s)\<rparr>)"

definition time_of :: "int \<Rightarrow> time" where
  "time_of us =
     (nat ((us div 3600000000) mod 24), nat ((us div 60000000) mod 60),
      nat ((us div 1000000) mod 60), nat (us mod 1000000))"

definition datetime_now_time :: "env \<Rightarrow> state \<Rightarrow> time \<times> state" where
  "datetime_now_time e s = (time_of (fst (datetime_now e s)), snd (datetime_now e s))"

section \<open>SQL queries of the handlers\<close>

text \<open>
  \<open>db.execute_query\<close> raises when MySQL does not answer and otherwise returns the rows
  of the \<open>WHERE\<close> clause.
\<close>

definition rooms_where :: "state \<Rightarrow> int \<Rightarrow> int \<Rightarrow> room_row list" where
  "rooms_where s room_id user_id =
     filter (\<lambda>r. r_id r = room_id \<and> r_user_id r = user_id) (rooms s)"

definition settings_where :: "state \<Rightarrow> int \<Rightarrow> int \<Rightarrow> settings_row list" where
  "settings_where s user_id room_id =
     filter (\<lambda>r. s_user_id r = user_id \<and> s_room_id r = room_id) (room_settings s)"

definition select_room :: "env \<Rightarrow> state \<Rightarrow> int \<Rightarrow> int \<Rightarrow> exn + room_row list" where
  "select_room e s room_id user_id =
     (if mysql_up e then Inr (rooms_where s room_id user_id) else Inl MySQLError)"

definition select_settings :: "env \<Rightarrow> state \<Rightarrow> int \<Rightarrow> int \<Rightarrow> exn + settings_row list" where
  "select_settings e s user_id room_id =
     (if mysql_up e then Inr (settings_where s user_id room_id) else Inl MySQLError)"


section \<open>Time-series store\<close>

text \<open>
  Modelled from the spec: the time-series engine is an external service (section 4.2,
  Telemetry Store Adapter). \<open>range\<close> returns the samples of a series with
  \<open>start \<le> timestamp < end\<close> in ascending order;
  \<open>latest\<close> returns the most recent sample of the series within the lookback window
  of "now", or nothing. A query filtered on measurement, \<open>user_id\<close> and \<open>room_id\<close>
  selects a single series, hence at most one result table.
\<close>

definition in_series :: "string \<Rightarrow> int \<Rightarrow> int option \<Rightarrow> point \<Rightarrow> bool" where
  "in_series m uid rid p = (measurement p = m \<and> tag_user_id p = uid \<and> tag_room_id p = rid)"

definition flux_range :: "int \<Rightarrow> int \<Rightarrow> point list \<Rightarrow> point list" where
  "flux_range start stop ps = filter (\<lambda>p. start \<le> time_stamp p \<and> time_stamp p < stop) ps"

definition flux_tables :: "point list \<Rightarrow> point list list" where
  "flux_tables rows = (if rows = [] then [] else [rows])"

definition flux_sort :: "point list list \<Rightarrow> point list list" where
  "flux_sort tables = map (sort_key time_stamp) tables"

definition flux_last :: "point list list \<Rightarrow> point list list" where
  "flux_last tables =
     map (\<lambda>rows. case rev (sort_key time_stamp rows) of [] \<Rightarrow> [] | p # _ \<Rightarrow> [p]) tables"

definition seven_days :: int where
  "seven_days = 7 * 24 * 3600 * 1000000"

definition lookback_rows :: "int \<Rightarrow> point list \<Rightarrow> int \<Rightarrow> int \<Rightarrow> point list" where
  "lookback_rows now ps user_id room_id =
     filter (in_series ''temperature'' user_id (Some room_id)) (flux_range (now - seven_days) now ps)"

text \<open>
  The query of the decision: \<open>range(start: -7d)\<close>, the three filters and \<open>last()\<close>.
  The store's \<open>now()\<close> is taken as one more reading of the clock; the query fails when
  the store does not answer.
\<close>

definition query_last_7d :: "env \<Rightarrow> state \<Rightarrow> int \<Rightarrow> int \<Rightarrow> (exn + point list list) \<times> state" where
  "query_last_7d e s user_id room_id =
     (if influx_ok e Query
      then (let (now, s1) = datetime_now e s
            in (Inr (flux_last (flux_tables (lookback_rows now (bucket s1) user_id room_id))), s1))
      else (Inl InfluxError, s))"

section \<open>Heating decision\<close>

text \<open>\<open>int(td.total_seconds())\<close>: whole seconds, truncated towards zero.\<close>

definition int_total_seconds :: "int \<Rightarrow> int" where
  "int_total_seconds us = (if 0 \<le> us then us div 1000000 else - ((- us) div 1000000))"

text \<open>The constructor \<open>time(hour, minute, second)\<close> raises \<open>ValueError\<close> out of range.\<close>

definition py_time :: "int \<Rightarrow> int \<Rightarrow> int \<Rightarrow> exn + time" where
  "py_time h m sec =
     (if 0 \<le> h \<and> h < 24 \<and> 0 \<le> m \<and> m < 60 \<and> 0 \<le> sec \<and> sec < 60
      then Inr (nat h, nat m, nat sec, 0)
      else Inl ValueError)"

fun as_time :: "(string \<Rightarrow> time option) \<Rightarrow> sql_time \<Rightarrow> exn + time" where
  "as_time sp (TimeDelta us) =
     (let seconds = int_total_seconds us
      in py_time (seconds div 3600) ((seconds mod 3600) div 60) (seconds mod 60))"
| "as_time sp (Str str) = (case sp str of None \<Rightarrow> Inl ValueError | Some t \<Rightarrow> Inr t)"
| "as_time sp (TimeObj t) = Inr t"

definition is_night :: "time \<Rightarrow> time \<Rightarrow> time \<Rightarrow> bool" where
  "is_night ns ne now =
     (if ns < ne then ns \<le> now \<and> now < ne else now \<ge> ns \<or> now < ne)"

definition target_temp :: "settings_row \<Rightarrow> time \<Rightarrow> time \<Rightarrow> time \<Rightarrow> real" where
  "target_temp settings ns ne now =
     (if is_night ns ne now then wanted_temp_night settings else wanted_temp_day settings)"

text \<open>
  The two nested \<open>for\<close> loops over the result tables: \<open>current_temp\<close> starts as
  \<open>None\<close> and every record overwrites it.
\<close>

definition current_temp_of :: "point list list \<Rightarrow> real option" where
  "current_temp_of tables =
     fold (\<lambda>table cur. fold (\<lambda>record _. Some (field_value record)) table cur) tables None"

definition get_heating_status :: "env \<Rightarrow> state \<Rightarrow> int \<Rightarrow> int \<Rightarrow> (exn + bool) \<times> state" where
  "get_heating_status e s room_id user_id =
     (case select_room e s room_id user_id of
        Inl err \<Rightarrow> (Inl err, s)
      | Inr room \<Rightarrow>
          if room = [] then (Inl (HTTPException 404 ''Room not found''), s)
          else
            (case select_settings e s user_id room_id of
               Inl err \<Rightarrow> (Inl err, s)
             | Inr [] \<Rightarrow> (Inl (HTTPException 404 ''Room settings not found''), s)
             | Inr (settings # _) \<Rightarrow>
                 (let (now, s1) = datetime_now_time e s
                  in case as_time (strptime e) (night_start settings) of
                       Inl err \<Rightarrow> (Inl err, s1)
                     | Inr ns \<Rightarrow>
                         (case as_time (strptime e) (night_end settings) of
                            Inl err \<Rightarrow> (Inl err, s1)
                          | Inr ne \<Rightarrow>
                              (case query_last_7d e s1 user_id room_id of
                                 (Inl err, s2) \<Rightarrow> (Inl err, s2)
                               | (Inr tables, s2) \<Rightarrow>
                                   (case current_temp_of tables of
                                      None \<Rightarrow>
                                        (Inl (HTTPException 404
                                           ''No temperature data found for this room''), s2)
                                    | Some current_temp \<Rightarrow>
                                        (Inr (current_temp < target_temp settings ns ne now),
                                         s2)))))))"

section \<open>Deleting a room\<close>

text \<open>
  Modelled from the spec: the range-delete of the external store (section 3: samples are
  only appended and range-deleted). It removes the samples of the room's series with a
  timestamp from the epoch up to, not including, the \<open>stop\<close> instant, which the handler
  reads from the clock while it builds the call.
\<close>

definition delete_api_delete :: "env \<Rightarrow> state \<Rightarrow> int \<Rightarrow> int \<Rightarrow> (exn + unit) \<times> state" where
  "delete_api_delete e s room_id user_id =
     (let (now, s1) = datetime_now e s
      in if influx_ok e Delete
         then (Inr (),
               s1\<lparr>bucket :=
                    filter (\<lambda>p. \<not> (in_series ''temperature'' user_id (Some room_id) p \<and>
                                    0 \<le> time_stamp p \<and> time_stamp p < now)) (bucket s1)\<rparr>)
         else (Inl InfluxError, s1))"

text \<open>
  \<open>DELETE FROM rooms WHERE id = %s\<close>; the foreign key of \<open>room_settings.room_id\<close> is
  declared \<open>ON DELETE CASCADE\<close>, so the settings rows of the room go with it.
\<close>

definition delete_from_rooms :: "env \<Rightarrow> state \<Rightarrow> int \<Rightarrow> (exn + unit) \<times> state" where
  "delete_from_rooms e s room_id =
     (if mysql_up e
      then (Inr (),
            s\<lparr>rooms := filter (\<lambda>r. r_id r \<noteq> room_id) (rooms s),
              room_settings := filter (\<lambda>r. s_room_id r \<noteq> room_id) (room_settings s)\<rparr>)
      else (Inl MySQLError, s))"

definition delete_room :: "env \<Rightarrow> state \<Rightarrow> int \<Rightarrow> int \<Rightarrow> (exn + string) \<times> state" where
  "delete_room e s room_id user_id =
     (case select_room e s room_id user_id of
        Inl err \<Rightarrow> (Inl err, s)
      | Inr room \<Rightarrow>
          if room = [] then (Inl (HTTPException 404 ''Room not found or access denied''), s)
          else
            (let s1 = (case delete_api_delete e s room_id user_id of
                         (Inl err, s') \<Rightarrow> s'
                       | (Inr _, s') \<Rightarrow> s')
             in case delete_from_rooms e s1 room_id of
                  (Inl err, s2) \<Rightarrow> (Inl err, s2)
                | (Inr _, s2) \<Rightarrow>
                    (Inr ''Room and all temperature data deleted successfully'', s2)))"

section \<open>Writing samples\<close>

text \<open>
  \<open>write_api\<close> is built with \<open>WriteOptions(batch_size=1)\<close>, the batching writer of
  the client: \<open>write\<close> hands the point to a background writer and returns. A point
  the store accepts is appended to the bucket; a point it refuses is lost, and no
  exception reaches the caller.
\<close>

definition write_api_write :: "env \<Rightarrow> state \<Rightarrow> point \<Rightarrow> state" where
  "write_api_write e s p =
     (if influx_ok e (Write (measurement p) (tag_user_id p) (tag_room_id p) (field_value p))
      then s\<lparr>bucket := bucket s @ [p]\<rparr>
      else s)"

subsection \<open>Batch ingestion\<close>

text \<open>\<open>str.replace('Z', '+00:00')\<close> replaces every occurrence of the letter.\<close>

definition replace_Z :: "string \<Rightarrow> string" where
  "replace_Z str = concat (map (\<lambda>c. if c = CHR ''Z'' then ''+00:00'' else [c]) str)"

text \<open>
  The timestamp of entry \<open>i\<close>: \<open>datetime.now()\<close> first; then, when timestamps were
  sent and \<open>i\<close> is within them, the parsed string, or \<open>datetime.now()\<close> again when
  \<open>fromisoformat\<close> raises \<open>ValueError\<close>.
\<close>

definition entry_timestamp :: "env \<Rightarrow> state \<Rightarrow> string list option \<Rightarrow> nat \<Rightarrow> int \<times> state" where
  "entry_timestamp e s timestamps i =
     (let (now, s1) = datetime_now e s
      in case timestamps of
           None \<Rightarrow> (now, s1)
         | Some tss \<Rightarrow>
             if tss \<noteq> [] \<and> i < length tss
             then (case fromisoformat e (replace_Z (tss ! i)) of
                     Some t \<Rightarrow> (t, s1)
                   | None \<Rightarrow> datetime_now e s1)
             else (now, s1))"

text \<open>
  The loop \<open>for i, temp in enumerate(batch.temperatures)\<close>. Nothing in its body
  raises: the \<open>ValueError\<close> of the parser is caught and the write returns.
\<close>

fun save_temperatures ::
  "env \<Rightarrow> state \<Rightarrow> int \<Rightarrow> int \<Rightarrow> string list option \<Rightarrow> nat \<Rightarrow> real list \<Rightarrow> state"
where
  "save_temperatures e s user_id room_id timestamps i [] = s"
| "save_temperatures e s user_id room_id timestamps i (temp # rest) =
     (let (timestamp, s2) = entry_timestamp e s timestamps i;
          s3 = write_api_write e s2
                 \<lparr>measurement = ''temperature'', tag_user_id = user_id,
                  tag_room_id = Some room_id, field_value = temp, time_stamp = timestamp\<rparr>
      in save_temperatures e s3 user_id room_id timestamps (Suc i) rest)"

text \<open>
  The handler answers \<open>"{len(batch.temperatures)} temperatures recorded"\<close>; the model
  returns that number.
\<close>

definition post_temperature_batch ::
  "env \<Rightarrow> state \<Rightarrow> int \<Rightarrow> int \<Rightarrow> real list \<Rightarrow> string list option \<Rightarrow> (exn + nat) \<times> state"
where
  "post_temperature_batch e s user_id room_id temperatures timestamps =
     (case select_room e s room_id user_id of
        Inl err \<Rightarrow> (Inl err, s)
      | Inr room \<Rightarrow>
          if room = [] then (Inl (HTTPException 404 ''Room not found or access denied''), s)
          else if length temperatures > 100
          then (Inl (HTTPException 400 ''Maximum 100 temperatures per request''), s)
          else
            (Inr (length temperatures),
             save_temperatures e s user_id room_id timestamps 0 temperatures))"

section \<open>Range query\<close>

text \<open>
  The two bounds the handler interpolates into the query: the relative duration
  \<open>-24h\<close> (here its number of hours), the call \<open>now()\<close>, or \<open>time(v: "...")\<close> around
  the caller's string.
\<close>

datatype flux_bound = Duration int | NowCall | TimeLit string

definition start_flux :: "string option \<Rightarrow> flux_bound" where
  "start_flux start =
     (case start of
        None \<Rightarrow> Duration (- 24)
      | Some str \<Rightarrow> if str = [] then Duration (- 24) else TimeLit str)"

definition end_flux :: "string option \<Rightarrow> flux_bound" where
  "end_flux stop =
     (case stop of
        None \<Rightarrow> NowCall
      | Some str \<Rightarrow> if str = [] then NowCall else TimeLit str)"

text \<open>
  Modelled from the spec: the bounds of a range query of the external store (sections
  4.2 and 6): an absolute instant, or a relative duration anchored to "now". A time
  literal the store cannot read fails the query.
\<close>

fun flux_bound_value :: "env \<Rightarrow> int \<Rightarrow> flux_bound \<Rightarrow> int option" where
  "flux_bound_value e now (Duration h) = Some (now + h * 3600000000)"
| "flux_bound_value e now NowCall = Some now"
| "flux_bound_value e now (TimeLit str) = flux_time e str"

definition query_range ::
  "env \<Rightarrow> state \<Rightarrow> flux_bound \<Rightarrow> flux_bound \<Rightarrow> int \<Rightarrow> int \<Rightarrow> (exn + point list list) \<times> state"
where
  "query_range e s start stop user_id room_id =
     (if influx_ok e Query
      then (let (now, s1) = datetime_now e s
            in case flux_bound_value e now start of
                 None \<Rightarrow> (Inl InfluxError, s1)
               | Some a \<Rightarrow>
                   (case flux_bound_value e now stop of
                      None \<Rightarrow> (Inl InfluxError, s1)
                    | Some b \<Rightarrow>
                        (Inr (flux_sort (flux_tables
                                (filter (in_series ''temperature'' user_id (Some room_id))
                                   (flux_range a b (bucket s1))))), s1)))
      else (Inl InfluxError, s))"

record temperature_response =
  tr_time :: int
  tr_value :: real
  tr_room_id :: int

definition get_room_temperatures ::
  "env \<Rightarrow> state \<Rightarrow> int \<Rightarrow> int \<Rightarrow> string option \<Rightarrow> string option
     \<Rightarrow> (exn + temperature_response list) \<times> state"
where
  "get_room_temperatures e s room_id user_id start stop =
     (case select_room e s room_id user_id of
        Inl err \<Rightarrow> (Inl err, s)
      | Inr room \<Rightarrow>
          if room = [] then (Inl (HTTPException 404 ''Room not found''), s)
          else
            (case query_range e s (start_flux start) (end_flux stop) user_id room_id of
               (Inl err, s1) \<Rightarrow> (Inl err, s1)
             | (Inr tables, s1) \<Rightarrow>
                 (Inr (concat (map (map (\<lambda>record.
                         \<lparr>tr_time = time_stamp record, tr_value = field_value record,
                          tr_room_id = room_id\<rparr>)) tables)), s1)))"

section \<open>Weather background task\<close>










section \<open>Notions of the statements\<close>



text \<open>Whether the store accepts the write of a point.\<close>

definition accepted :: "env \<Rightarrow> point \<Rightarrow> bool" where
  "accepted e p =
     influx_ok e (Write (measurement p) (tag_user_id p) (tag_room_id p) (field_value p))"



text \<open>
  The timestamp string supplied for index \<open>i\<close> of a batch, if any, and the instant it
  parses to, if it does.
\<close>

definition supplied :: "string list option \<Rightarrow> nat \<Rightarrow> string option" where
  "supplied timestamps i =
     (case timestamps of
        None \<Rightarrow> None
      | Some tss \<Rightarrow> if i < length tss then Some (tss ! i) else None)"

definition parsed :: "env \<Rightarrow> string list option \<Rightarrow> nat \<Rightarrow> int option" where
  "parsed e timestamps i =
     (case supplied timestamps i of None \<Rightarrow> None | Some str \<Rightarrow> fromisoformat e (replace_Z str))"

text \<open>
  The instant a bound of a range request stands for: the default when the bound is
  omitted (\<open>None\<close> or empty), and otherwise what the store reads in the string.
\<close>

definition bound_instant :: "env \<Rightarrow> int \<Rightarrow> string option \<Rightarrow> int option" where
  "bound_instant e dflt bound =
     (case bound of
        None \<Rightarrow> Some dflt
      | Some str \<Rightarrow> if str = [] then Some dflt else flux_time e str)"

definition response_of :: "int \<Rightarrow> point \<Rightarrow> temperature_response" where
  "response_of room_id p =
     \<lparr>tr_time = time_stamp p, tr_value = field_value p, tr_room_id = room_id\<rparr>"

definition one_day :: int where
  "one_day = 24 * 3600000000"

section \<open>The specification's wording, for comparison\<close>

text \<open>
  The target resolver of section 4.1, step 1: the time of day of "now" in the zone the
  schedule names. \<open>utc_offset\<close> gives the offset of a zone and \<open>server_offset\<close> that of
  the zone in which the server's \<open>datetime.now()\<close> reads, both in microseconds.
\<close>

definition zoned_time_of_day :: "(string \<Rightarrow> int) \<Rightarrow> int \<Rightarrow> string \<Rightarrow> int \<Rightarrow> time" where
  "zoned_time_of_day utc_offset server_offset tz local_now =
     time_of (local_now - server_offset + utc_offset tz)"

text \<open>The decision of section 4.3 with that resolver.\<close>

definition decide_zoned ::
  "(string \<Rightarrow> int) \<Rightarrow> int \<Rightarrow> env \<Rightarrow> state \<Rightarrow> int \<Rightarrow> int \<Rightarrow> exn + bool"
where
  "decide_zoned utc_offset server_offset e s room_id user_id =
     (if rooms_where s room_id user_id = [] then Inl (HTTPException 404 ''Room not found'')
      else
        (case settings_where s user_id room_id of
           [] \<Rightarrow> Inl (HTTPException 404 ''Room settings not found'')
         | schedule # _ \<Rightarrow>
             (case as_time (strptime e) (night_start schedule) of
                Inl err \<Rightarrow> Inl err
              | Inr ns \<Rightarrow>
                  (case as_time (strptime e) (night_end schedule) of
                     Inl err \<Rightarrow> Inl err
                   | Inr ne \<Rightarrow>
                       (case current_temp_of (flux_last (flux_tables
                                (lookback_rows (now_at e (Suc (clock s))) (bucket s)
                                   user_id room_id))) of
                          None \<Rightarrow>
                            Inl (HTTPException 404 ''No temperature data found for this room'')
                        | Some v \<Rightarrow>
                            Inr (v < target_temp schedule ns ne
                                       (zoned_time_of_day utc_offset server_offset
                                          (timezone schedule) (now_at e (clock s)))))))))"

text \<open>
  The window of a range query as section 4.2 words it: an omitted end is "now", an
  omitted start is 24 hours before the end.
\<close>

definition spec_window :: "env \<Rightarrow> int \<Rightarrow> string option \<Rightarrow> string option \<Rightarrow> (int \<times> int) option" where
  "spec_window e now start stop =
     (case bound_instant e now stop of
        None \<Rightarrow> None
      | Some b \<Rightarrow>
          (case bound_instant e (b - one_day) start of
             None \<Rightarrow> None
           | Some a \<Rightarrow> Some (a, b)))"

definition range_spec ::
  "env \<Rightarrow> state \<Rightarrow> int \<Rightarrow> int \<Rightarrow> string option \<Rightarrow> string option \<Rightarrow> exn + temperature_response list"
where
  "range_spec e s room_id user_id start stop =
     (case spec_window e (now_at e (clock s)) start stop of
        None \<Rightarrow> Inl InfluxError
      | Some (a, b) \<Rightarrow>
          Inr (map (response_of room_id)
                 (sort_key time_stamp
                    (filter (in_series ''temperature'' user_id (Some room_id))
                       (flux_range a b (bucket s))))))"

section \<open>Example data\<close>

text \<open>
  A server whose clock reads 23:30 on the eleventh day after the epoch, three users, of
  whom the second gets no answer from the weather provider, and one room with the
  default schedule and one reading of 17.5 degrees ten minutes before.
\<close>

definition demo_env :: env where
  "demo_env =
     \<lparr>now_at = (\<lambda>k. 948600000000 + int k),
      strptime = (\<lambda>str. None),
      fromisoformat =
        (\<lambda>str. if str = ''1970-01-11T00:00:00+00:00'' then Some 864000000000 else None),
      flux_time = (\<lambda>str. if str = ''1970-01-11T12:00:00Z'' then Some 907200000000 else None),
      py_float = (\<lambda>str. None),
      http_get =
        (\<lambda>user. if u_id user = 2 then RequestFails
                 else Response True
                        (Some (JObj [(''current'', JObj [(''temperature_2m'', JNum 7)])]))),
      mysql_up = True,
      influx_ok = (\<lambda>op. True)\<rparr>"

definition demo_schedule :: settings_row where
  "demo_schedule =
     \<lparr>s_user_id = 1, s_room_id = 1, timezone = ''Europe/Berlin'',
      wanted_temp_day = 21, wanted_temp_night = 18,
      night_start = TimeDelta 79200000000, night_end = TimeDelta 21600000000\<rparr>"

definition demo_point :: point where
  "demo_point =
     \<lparr>measurement = ''temperature'', tag_user_id = 1, tag_room_id = Some 1,
      field_value = 17.5, time_stamp = 948000000000\<rparr>"

definition demo_state :: state where
  "demo_state =
     \<lparr>users =
        [\<lparr>u_id = 1, latitude = 52.52, longitude = 13.4\<rparr>,
         \<lparr>u_id = 2, latitude = 48.14, longitude = 11.58\<rparr>,
         \<lparr>u_id = 3, latitude = 53.55, longitude = 9.99\<rparr>],
      rooms = [\<lparr>r_id = 1, r_user_id = 1, r_name = ''Room 1''\<rparr>],
      room_settings = [demo_schedule],
      bucket = [demo_point],
      clock = 0,
      slept = 0\<rparr>"

text \<open>
  A server in UTC at noon; the room's schedule names \<open>Asia/Tokyo\<close> (nine hours ahead)
  with the night from 20:00 to 23:00, and the latest reading is 19 degrees.
\<close>

definition tokyo_offsets :: "string \<Rightarrow> int" where
  "tokyo_offsets tz = (if tz = ''Asia/Tokyo'' then 32400000000 else 0)"

definition tokyo_env :: env where
  "tokyo_env = demo_env\<lparr>now_at := (\<lambda>k. 907200000000 + int k)\<rparr>"

definition tokyo_state :: state where
  "tokyo_state =
     demo_state
       \<lparr>room_settings :=
          [demo_schedule\<lparr>timezone := ''Asia/Tokyo'',
                          night_start := TimeDelta 72000000000,
                          night_end := TimeDelta 82800000000\<rparr>],
        bucket := [demo_point\<lparr>field_value := 19, time_stamp := 900000000000\<rparr>]\<rparr>"

text \<open>
  A bucket whose only reading was taken at 18:00 on the tenth day, five and a half hours
  before the last 24 hours began.
\<close>

definition early_state :: state where
  "early_state = demo_state\<lparr>bucket := [demo_point\<lparr>time_stamp := 842400000000\<rparr>]\<rparr>"

section \<open>Auxiliary facts\<close>

lemma last_sort_key_max:
  assumes "q \<in> set rows"
  shows "f q \<le> f (last (sort_key f rows))"
proof -
  let ?ys = "sort_key f rows"
  have ne: "?ys \<noteq> []" using assms by (metis empty_iff set_empty set_sort)
  have srt: "sorted (map f ?ys)" by simp
  have "q \<in> set ?ys" using assms by simp
  then obtain i where i: "i < length ?ys" "?ys ! i = q" by (metis in_set_conv_nth)
  have "map f ?ys ! i \<le> map f ?ys ! (length ?ys - 1)"
    using srt i(1) by (intro sorted_nth_mono) auto
  then show ?thesis using i ne by (simp add: last_conv_nth)
qed

lemma current_temp_of_last:
  "current_temp_of (flux_last (flux_tables rows)) =
     (if rows = [] then None else Some (field_value (last (sort_key time_stamp rows))))"
proof (cases "rows = []")
  case True
  then show ?thesis by (simp add: current_temp_of_def flux_last_def flux_tables_def)
next
  case False
  then have "sort_key time_stamp rows \<noteq> []" by (metis set_empty set_sort)
  then obtain p ps where "rev (sort_key time_stamp rows) = p # ps"
    by (cases "rev (sort_key time_stamp rows)") auto
  moreover from this have "last (sort_key time_stamp rows) = p"
    by (metis last_rev hd_rev list.sel(1) rev_rev_ident)
  ultimately show ?thesis using False
    by (simp add: current_temp_of_def flux_last_def flux_tables_def)
qed

lemma get_heating_status_run:
  assumes "mysql_up e"
    and "rooms_where s room_id user_id \<noteq> []"
    and "settings_where s user_id room_id = st # rest"
    and "as_time (strptime e) (night_start st) = Inr ns"
    and "as_time (strptime e) (night_end st) = Inr ne"
    and "influx_ok e Query"
  shows "get_heating_status e s room_id user_id =
     (case current_temp_of (flux_last (flux_tables
              (lookback_rows (now_at e (Suc (clock s))) (bucket s) user_id room_id))) of
        None \<Rightarrow> (Inl (HTTPException 404 ''No temperature data found for this room''),
                 s\<lparr>clock := Suc (Suc (clock s))\<rparr>)
      | Some c \<Rightarrow> (Inr (c < target_temp st ns ne (time_of (now_at e (clock s)))),
                 s\<lparr>clock := Suc (Suc (clock s))\<rparr>))"
  using assms
  by (simp add: get_heating_status_def select_room_def select_settings_def
      datetime_now_time_def datetime_now_def query_last_7d_def split: option.splits)

subsection \<open>The example data, evaluated\<close>

lemma demo_time [simp]: "time_of 948600000000 = (23, 30, 0, 0)"
  by (simp add: time_of_def)

lemma demo_rooms [simp]:
  "rooms_where demo_state 1 1 = [\<lparr>r_id = 1, r_user_id = 1, r_name = ''Room 1''\<rparr>]"
  "settings_where demo_state 1 1 = [demo_schedule]"
  by (simp_all add: rooms_where_def settings_where_def demo_state_def demo_schedule_def)

lemma demo_rows [simp]:
  "lookback_rows 948600000001 [demo_point] 1 1 = [demo_point]"
  by (simp add: lookback_rows_def flux_range_def in_series_def seven_days_def demo_point_def)

lemma demo_target [simp]: "target_temp demo_schedule (22, 0, 0, 0) (6, 0, 0, 0) (23, 30, 0, 0) = 18"
  by (simp add: target_temp_def is_night_def demo_schedule_def)

lemma tokyo_times:
  "time_of 907200000000 = (12, 0, 0, 0)"
  "time_of (907200000000 - 0 + 32400000000) = (21, 0, 0, 0)"
  "as_time sp (TimeDelta 72000000000) = Inr (20, 0, 0, 0)"
  "as_time sp (TimeDelta 82800000000) = Inr (23, 0, 0, 0)"
  by (simp_all add: time_of_def int_total_seconds_def py_time_def)

lemma settings_where_retimed:
  "settings_where (s\<lparr>room_settings := map (\<lambda>r. r\<lparr>timezone := tz r\<rparr>) (room_settings s)\<rparr>)
       user_id room_id =
     map (\<lambda>r. r\<lparr>timezone := tz r\<rparr>) (settings_where s user_id room_id)"
  by (simp add: settings_where_def filter_map comp_def)

lemma target_temp_retimed:
  "target_temp (r\<lparr>timezone := z\<rparr>) ns ne now = target_temp r ns ne now"
  by (simp add: target_temp_def)

subsection \<open>The batch loop\<close>

lemma entry_timestamp_cases:
  "entry_timestamp e s timestamps i =
     (case parsed e timestamps i of
        Some t \<Rightarrow> (t, s\<lparr>clock := Suc (clock s)\<rparr>)
      | None \<Rightarrow>
          (case supplied timestamps i of
             None \<Rightarrow> (now_at e (clock s), s\<lparr>clock := Suc (clock s)\<rparr>)
           | Some str \<Rightarrow> (now_at e (Suc (clock s)), s\<lparr>clock := Suc (Suc (clock s))\<rparr>)))"
  by (auto simp: entry_timestamp_def parsed_def supplied_def datetime_now_def
      split: option.splits)

lemma entry_timestamp_reading:
  "\<exists>k c. clock s \<le> k \<and> k < c \<and>
         entry_timestamp e s timestamps i =
           (case parsed e timestamps i of Some t \<Rightarrow> t | None \<Rightarrow> now_at e k, s\<lparr>clock := c\<rparr>)"
proof (cases "parsed e timestamps i")
  case (Some t)
  then show ?thesis
    by (intro exI [of _ "clock s"] exI [of _ "Suc (clock s)"]) (simp add: entry_timestamp_cases)
next
  case None
  show ?thesis
  proof (cases "supplied timestamps i")
    case n: None
    then show ?thesis using None
      by (intro exI [of _ "clock s"] exI [of _ "Suc (clock s)"]) (simp add: entry_timestamp_cases)
  next
    case (Some str)
    then show ?thesis using None
      by (intro exI [of _ "Suc (clock s)"] exI [of _ "Suc (Suc (clock s))"])
        (simp add: entry_timestamp_cases)
  qed
qed

lemma save_temperatures_run:
  "\<exists>pts ks c.
     save_temperatures e s user_id room_id timestamps i temps =
       s\<lparr>bucket := bucket s @ filter (accepted e) pts, clock := c\<rparr> \<and>
     clock s \<le> c \<and> length pts = length temps \<and> length ks = length temps \<and>
     map field_value pts = temps \<and>
     (\<forall>p \<in> set pts. in_series ''temperature'' user_id (Some room_id) p) \<and>
     sorted_wrt (<) ks \<and> (\<forall>k \<in> set ks. clock s \<le> k \<and> k < c) \<and>
     (\<forall>j < length temps.
        time_stamp (pts ! j) =
          (case parsed e timestamps (i + j) of Some t \<Rightarrow> t | None \<Rightarrow> now_at e (ks ! j)))"
proof (induction temps arbitrary: s i)
  case Nil
  show ?case
    by (intro exI [of _ "[]"] exI [of _ "clock s"]) simp
next
  case (Cons temp rest)
  obtain k c1 where k: "clock s \<le> k" "k < c1"
    and stamp: "entry_timestamp e s timestamps i =
           (case parsed e timestamps i of Some t \<Rightarrow> t | None \<Rightarrow> now_at e k, s\<lparr>clock := c1\<rparr>)"
    using entry_timestamp_reading [of s e timestamps i] by blast
  define ts where "ts = (case parsed e timestamps i of Some t \<Rightarrow> t | None \<Rightarrow> now_at e k)"
  define p where "p = \<lparr>measurement = ''temperature'', tag_user_id = user_id,
                 tag_room_id = Some room_id, field_value = temp, time_stamp = ts\<rparr>"
  define s3 where "s3 = s\<lparr>clock := c1, bucket := bucket s @ filter (accepted e) [p]\<rparr>"
  have step: "save_temperatures e s user_id room_id timestamps i (temp # rest) =
                save_temperatures e s3 user_id room_id timestamps (Suc i) rest"
    by (simp add: stamp write_api_write_def accepted_def s3_def p_def ts_def)
  from Cons.IH [of s3 "Suc i"]
  obtain pts ks c where ih:
    "save_temperatures e s3 user_id room_id timestamps (Suc i) rest =
       s3\<lparr>bucket := bucket s3 @ filter (accepted e) pts, clock := c\<rparr>"
    "clock s3 \<le> c" "length pts = length rest" "length ks = length rest"
    "map field_value pts = rest"
    "\<forall>p \<in> set pts. in_series ''temperature'' user_id (Some room_id) p"
    "sorted_wrt (<) ks" "\<forall>k \<in> set ks. clock s3 \<le> k \<and> k < c"
    "\<forall>j < length rest.
        time_stamp (pts ! j) =
          (case parsed e timestamps (Suc i + j) of Some t \<Rightarrow> t | None \<Rightarrow> now_at e (ks ! j))"
    by blast
  have c3: "clock s3 = c1" by (simp add: s3_def)
  have res: "save_temperatures e s user_id room_id timestamps i (temp # rest) =
               s\<lparr>bucket := bucket s @ filter (accepted e) (p # pts), clock := c\<rparr>"
    by (simp only: step ih(1)) (simp add: s3_def)
  have stamps: "\<forall>j < length (temp # rest).
        time_stamp ((p # pts) ! j) =
          (case parsed e timestamps (i + j) of Some t \<Rightarrow> t | None \<Rightarrow> now_at e ((k # ks) ! j))"
  proof (intro allI impI)
    fix j assume "j < length (temp # rest)"
    then show "time_stamp ((p # pts) ! j) =
          (case parsed e timestamps (i + j) of Some t \<Rightarrow> t | None \<Rightarrow> now_at e ((k # ks) ! j))"
      using ih(9) by (cases j) (auto simp: p_def ts_def split: option.splits)
  qed
  have srt: "sorted_wrt (<) (k # ks)"
    using ih(7,8) k c3 by auto
  have bnd: "\<forall>k' \<in> set (k # ks). clock s \<le> k' \<and> k' < c"
    using ih(2,8) k c3 by auto
  have ser: "\<forall>q \<in> set (p # pts). in_series ''temperature'' user_id (Some room_id) q"
    using ih(6) by (simp add: p_def in_series_def)
  have "clock s \<le> c" using ih(2) k c3 by simp
  moreover have "length (p # pts) = length (temp # rest)" using ih(3) by simp
  moreover have "length (k # ks) = length (temp # rest)" using ih(4) by simp
  moreover have "map field_value (p # pts) = temp # rest" using ih(5) by (simp add: p_def)
  ultimately show ?case
    using res stamps srt bnd ser
    by (intro exI [of _ "p # pts"] exI [of _ "k # ks"] exI [of _ c]) blast
qed

lemma accepted_batch_points:
  assumes "\<forall>t \<in> set temps. influx_ok e (Write ''temperature'' user_id (Some room_id) t)"
    and "map field_value pts = temps"
    and "\<forall>p \<in> set pts. in_series ''temperature'' user_id (Some room_id) p"
  shows "filter (accepted e) pts = pts"
proof -
  have "accepted e p" if "p \<in> set pts" for p
  proof -
    have "field_value p \<in> set temps" using that assms(2) by auto
    then show ?thesis using that assms(1,3) by (auto simp: accepted_def in_series_def)
  qed
  then show ?thesis by simp
qed

subsection \<open>The range query\<close>

lemma start_flux_value:
  "flux_bound_value e now (start_flux start) = bound_instant e (now - one_day) start"
  by (simp add: start_flux_def bound_instant_def one_day_def split: option.splits)

lemma end_flux_value:
  "flux_bound_value e now (end_flux stop) = bound_instant e now stop"
  by (simp add: end_flux_def bound_instant_def split: option.splits)

lemma responses_of_tables:
  "concat (map (map f) (flux_sort (flux_tables rows))) = map f (sort_key time_stamp rows)"
  by (simp add: flux_sort_def flux_tables_def)

lemma sorted_responses:
  "sorted (map tr_time (map (response_of room_id) (sort_key time_stamp rows)))"
proof -
  have "tr_time \<circ> response_of room_id = time_stamp"
    by (auto simp: response_of_def)
  then show ?thesis by simp
qed

subsection \<open>The weather task\<close>





section \<open>Target resolver\<close>

text \<open>
  C1. The night-window test of the heating decision: when \<open>night_start < night_end\<close>
  the moment is night exactly when \<open>night_start \<le> now < night_end\<close>; otherwise (the
  window wraps) exactly when \<open>now \<ge> night_start\<close> or \<open>now < night_end\<close>. The window is
  closed at \<open>night_start\<close> and, for a window with two different bounds, open at
  \<open>night_end\<close>. The target is the night target at night and the day target otherwise.
\<close>

theorem night_window_membership:
  "(ns < ne \<longrightarrow> (is_night ns ne now \<longleftrightarrow> ns \<le> now \<and> now < ne)) \<and>
   (\<not> ns < ne \<longrightarrow> (is_night ns ne now \<longleftrightarrow> now \<ge> ns \<or> now < ne)) \<and>
   is_night ns ne ns \<and>
   (ns \<noteq> ne \<longrightarrow> \<not> is_night ns ne ne) \<and>
   target_temp settings ns ne now =
     (if is_night ns ne now then wanted_temp_night settings else wanted_temp_day settings)"
  by (auto simp: is_night_def target_temp_def)

theorem night_window_membership_witness:
  "\<not> (22, 0, 0, 0) < ((6, 0, 0, 0) :: time) \<and>
   is_night (22, 0, 0, 0) (6, 0, 0, 0) (23, 30, 0, 0) \<and>
   \<not> is_night (22, 0, 0, 0) (6, 0, 0, 0) (7, 0, 0, 0) \<and>
   \<not> is_night (22, 0, 0, 0) (6, 0, 0, 0) (6, 0, 0, 0) \<and>
   target_temp demo_schedule (22, 0, 0, 0) (6, 0, 0, 0) (23, 30, 0, 0) = 18 \<and>
   target_temp demo_schedule (22, 0, 0, 0) (6, 0, 0, 0) (7, 0, 0, 0) = 21 \<and>
   (1, 0, 0, 0) < ((5, 0, 0, 0) :: time) \<and>
   is_night (1, 0, 0, 0) (5, 0, 0, 0) (1, 0, 0, 0) \<and>
   \<not> is_night (1, 0, 0, 0) (5, 0, 0, 0) (5, 0, 0, 0)"
  using night_window_membership [of "(22, 0, 0, 0)" "(6, 0, 0, 0)" "(23, 30, 0, 0)" demo_schedule]
    night_window_membership [of "(22, 0, 0, 0)" "(6, 0, 0, 0)" "(7, 0, 0, 0)" demo_schedule]
    night_window_membership [of "(1, 0, 0, 0)" "(5, 0, 0, 0)" "(1, 0, 0, 0)" demo_schedule]
  by (simp add: demo_schedule_def)

text \<open>
  C4. A schedule with \<open>night_start = night_end\<close> takes the wrap branch, which holds at
  every time of day: it is always night and the target is always the night target.
\<close>

theorem equal_bounds_always_night:
  "is_night t t now \<and> target_temp settings t t now = wanted_temp_night settings"
  using linear [of t now] by (auto simp: is_night_def target_temp_def)

section \<open>Heating decision\<close>

text \<open>
  C2. For a room of the caller with a schedule and at least one sample in the seven-day
  window, the decision is \<open>heating_on = True\<close> exactly when the value of the latest
  sample is strictly below the resolved target; a latest value equal to the target
  gives \<open>False\<close>. (MySQL and the store answer, and the stored night bounds are
  wall-clock times.)
\<close>

theorem heating_on_iff_below_target:
  assumes "mysql_up e" and "influx_ok e Query"
    and "rooms_where s room_id user_id \<noteq> []"
    and "settings_where s user_id room_id = schedule # rest"
    and "as_time (strptime e) (night_start schedule) = Inr ns"
    and "as_time (strptime e) (night_end schedule) = Inr ne"
    and "rows = lookback_rows (now_at e (Suc (clock s))) (bucket s) user_id room_id"
    and "rows \<noteq> []"
    and "target = target_temp schedule ns ne (time_of (now_at e (clock s)))"
  shows "\<exists>latest \<in> set rows.
           (\<forall>p \<in> set rows. time_stamp p \<le> time_stamp latest) \<and>
           fst (get_heating_status e s room_id user_id) = Inr (field_value latest < target) \<and>
           (field_value latest = target \<longrightarrow>
              fst (get_heating_status e s room_id user_id) = Inr False)"
proof -
  let ?latest = "last (sort_key time_stamp rows)"
  have "sort_key time_stamp rows \<noteq> []" using assms(8) by (metis set_empty set_sort)
  then have mem: "?latest \<in> set rows" by (metis last_in_set set_sort)
  have top: "\<forall>p \<in> set rows. time_stamp p \<le> time_stamp ?latest"
    by (simp add: last_sort_key_max)
  have run: "fst (get_heating_status e s room_id user_id) = Inr (field_value ?latest < target)"
    using assms(7,8,9)
    by (simp add: get_heating_status_run [OF assms(1,3,4,5,6,2)] current_temp_of_last)
  show ?thesis using mem top run by auto
qed

theorem heating_on_iff_below_target_witness:
  "fst (get_heating_status demo_env demo_state 1 1) = Inr True"
proof -
  have e: "mysql_up demo_env" "influx_ok demo_env Query"
    by (simp_all add: demo_env_def)
  have ns: "as_time (strptime demo_env) (night_start demo_schedule) = Inr (22, 0, 0, 0)"
    and ne: "as_time (strptime demo_env) (night_end demo_schedule) = Inr (6, 0, 0, 0)"
    by (simp_all add: demo_schedule_def int_total_seconds_def py_time_def)
  have r: "rooms_where demo_state 1 1 \<noteq> []" by simp
  have st: "settings_where demo_state 1 1 = demo_schedule # []" by simp
  have rows: "[demo_point] = lookback_rows (now_at demo_env (Suc (clock demo_state))) (bucket demo_state) 1 1"
    by (simp add: demo_env_def demo_state_def)
  have tg: "18 = target_temp demo_schedule (22, 0, 0, 0) (6, 0, 0, 0) (time_of (now_at demo_env (clock demo_state)))"
    by (simp add: demo_env_def demo_state_def)
  show ?thesis
    using heating_on_iff_below_target [OF e r st ns ne rows _ tg]
    by (simp add: demo_point_def)
qed

text \<open>
  C8. With MySQL answering, the decision fails with 404 "Room not found" when the caller
  has no such room and with 404 "Room settings not found" when the room has no
  schedule, in both cases without touching the store or the clock, whatever the state
  of the store; when room and schedule exist and no sample of the room's series lies in
  the seven-day window, it fails with 404 "No temperature data found for this room"
  and returns no decision.
\<close>

theorem decision_not_found_and_no_data:
  assumes "mysql_up e"
  shows "(rooms_where s room_id user_id = [] \<longrightarrow>
            get_heating_status e s room_id user_id =
              (Inl (HTTPException 404 ''Room not found''), s)) \<and>
         (rooms_where s room_id user_id \<noteq> [] \<and> settings_where s user_id room_id = [] \<longrightarrow>
            get_heating_status e s room_id user_id =
              (Inl (HTTPException 404 ''Room settings not found''), s)) \<and>
         (rooms_where s room_id user_id \<noteq> [] \<and>
          settings_where s user_id room_id = schedule # rest \<and>
          as_time (strptime e) (night_start schedule) = Inr ns \<and>
          as_time (strptime e) (night_end schedule) = Inr ne \<and>
          influx_ok e Query \<and>
          lookback_rows (now_at e (Suc (clock s))) (bucket s) user_id room_id = [] \<longrightarrow>
            fst (get_heating_status e s room_id user_id) =
              Inl (HTTPException 404 ''No temperature data found for this room''))"
proof (intro conjI impI)
  assume "rooms_where s room_id user_id = []"
  then show "get_heating_status e s room_id user_id =
              (Inl (HTTPException 404 ''Room not found''), s)"
    using assms by (simp add: get_heating_status_def select_room_def)
next
  assume "rooms_where s room_id user_id \<noteq> [] \<and> settings_where s user_id room_id = []"
  then show "get_heating_status e s room_id user_id =
              (Inl (HTTPException 404 ''Room settings not found''), s)"
    using assms by (simp add: get_heating_status_def select_room_def select_settings_def)
next
  assume h: "rooms_where s room_id user_id \<noteq> [] \<and>
          settings_where s user_id room_id = schedule # rest \<and>
          as_time (strptime e) (night_start schedule) = Inr ns \<and>
          as_time (strptime e) (night_end schedule) = Inr ne \<and>
          influx_ok e Query \<and>
          lookback_rows (now_at e (Suc (clock s))) (bucket s) user_id room_id = []"
  then have "get_heating_status e s room_id user_id =
     (case current_temp_of (flux_last (flux_tables
              (lookback_rows (now_at e (Suc (clock s))) (bucket s) user_id room_id))) of
        None \<Rightarrow> (Inl (HTTPException 404 ''No temperature data found for this room''),
                 s\<lparr>clock := Suc (Suc (clock s))\<rparr>)
      | Some c \<Rightarrow> (Inr (c < target_temp schedule ns ne (time_of (now_at e (clock s)))),
                 s\<lparr>clock := Suc (Suc (clock s))\<rparr>))"
    using assms by (intro get_heating_status_run) auto
  then show "fst (get_heating_status e s room_id user_id) =
              Inl (HTTPException 404 ''No temperature data found for this room'')"
    using h by (simp add: current_temp_of_last)
qed

theorem decision_not_found_and_no_data_witness:
  "get_heating_status (demo_env\<lparr>influx_ok := (\<lambda>op. False)\<rparr>) demo_state 2 1 =
     (Inl (HTTPException 404 ''Room not found''), demo_state) \<and>
   get_heating_status (demo_env\<lparr>influx_ok := (\<lambda>op. False)\<rparr>)
       (demo_state\<lparr>room_settings := []\<rparr>) 1 1 =
     (Inl (HTTPException 404 ''Room settings not found''), demo_state\<lparr>room_settings := []\<rparr>) \<and>
   fst (get_heating_status demo_env (demo_state\<lparr>bucket := []\<rparr>) 1 1) =
     Inl (HTTPException 404 ''No temperature data found for this room'')"
proof -
  have up: "mysql_up (demo_env\<lparr>influx_ok := (\<lambda>op. False)\<rparr>)" "mysql_up demo_env"
    by (simp_all add: demo_env_def)
  have a: "rooms_where demo_state 2 1 = []"
    by (simp add: rooms_where_def demo_state_def)
  have b: "rooms_where (demo_state\<lparr>room_settings := []\<rparr>) 1 1 \<noteq> [] \<and>
           settings_where (demo_state\<lparr>room_settings := []\<rparr>) 1 1 = []"
    by (simp add: rooms_where_def settings_where_def demo_state_def)
  have c: "rooms_where (demo_state\<lparr>bucket := []\<rparr>) 1 1 \<noteq> [] \<and>
          settings_where (demo_state\<lparr>bucket := []\<rparr>) 1 1 = demo_schedule # [] \<and>
          as_time (strptime demo_env) (night_start demo_schedule) = Inr (22, 0, 0, 0) \<and>
          as_time (strptime demo_env) (night_end demo_schedule) = Inr (6, 0, 0, 0) \<and>
          influx_ok demo_env Query \<and>
          lookback_rows (now_at demo_env (Suc (clock (demo_state\<lparr>bucket := []\<rparr>))))
            (bucket (demo_state\<lparr>bucket := []\<rparr>)) 1 1 = []"
    by (simp add: rooms_where_def settings_where_def demo_state_def demo_env_def
        demo_schedule_def int_total_seconds_def py_time_def lookback_rows_def flux_range_def)
  show ?thesis
    using decision_not_found_and_no_data [OF up(1), of demo_state 2 1] a
      decision_not_found_and_no_data [OF up(1), of "demo_state\<lparr>room_settings := []\<rparr>" 1 1] b
      decision_not_found_and_no_data [OF up(2), of "demo_state\<lparr>bucket := []\<rparr>" 1 1
        demo_schedule "[]" "(22, 0, 0, 0)" "(6, 0, 0, 0)"] c
    by blast
qed

text \<open>
  C3, as stated: the night-window test uses the time of day of "now" in the zone the
  schedule names. It does not: on a server in UTC at noon, a schedule in \<open>Asia/Tokyo\<close>
  (21:00 there) with the night from 20:00 to 23:00 and a latest reading of 19 degrees,
  the handler takes the day target 21 and turns the heating on, where the zoned
  resolver takes the night target 18 and leaves it off.
\<close>

theorem schedule_timezone_counterexample:
  "fst (get_heating_status tokyo_env tokyo_state 1 1) = Inr True \<and>
   decide_zoned tokyo_offsets 0 tokyo_env tokyo_state 1 1 = Inr False"
proof -
  have e: "mysql_up tokyo_env" "influx_ok tokyo_env Query"
    "now_at tokyo_env = (\<lambda>k. 907200000000 + int k)" "strptime tokyo_env = (\<lambda>str. None)"
    by (simp_all add: tokyo_env_def demo_env_def)
  have s: "rooms_where tokyo_state 1 1 \<noteq> []"
    "settings_where tokyo_state 1 1 =
       [demo_schedule\<lparr>timezone := ''Asia/Tokyo'', night_start := TimeDelta 72000000000,
                       night_end := TimeDelta 82800000000\<rparr>]"
    "bucket tokyo_state = [demo_point\<lparr>field_value := 19, time_stamp := 900000000000\<rparr>]"
    "clock tokyo_state = 0"
    by (simp_all add: tokyo_state_def demo_state_def rooms_where_def settings_where_def
        demo_schedule_def)
  let ?st = "demo_schedule\<lparr>timezone := ''Asia/Tokyo'', night_start := TimeDelta 72000000000,
                       night_end := TimeDelta 82800000000\<rparr>"
  have ns: "as_time (strptime tokyo_env) (night_start ?st) = Inr (20, 0, 0, 0)"
    and ne: "as_time (strptime tokyo_env) (night_end ?st) = Inr (23, 0, 0, 0)"
    by (simp_all add: int_total_seconds_def py_time_def)
  have code: "fst (get_heating_status tokyo_env tokyo_state 1 1) = Inr True"
    by (simp add: get_heating_status_run [OF e(1) s(1) s(2) ns ne e(2)] e s tokyo_times
        lookback_rows_def flux_range_def in_series_def seven_days_def current_temp_of_last target_temp_def is_night_def demo_schedule_def
        demo_point_def)
  have spec: "decide_zoned tokyo_offsets 0 tokyo_env tokyo_state 1 1 = Inr False"
    using s(1)
    by (simp add: decide_zoned_def e s tokyo_times lookback_rows_def flux_range_def in_series_def seven_days_def current_temp_of_last
        target_temp_def is_night_def demo_schedule_def demo_point_def
        zoned_time_of_day_def tokyo_offsets_def int_total_seconds_def py_time_def time_of_def)
  show ?thesis using code spec by simp
qed

text \<open>
  C3, amended: the time of day used in the night-window test is that of the server's
  own \<open>datetime.now()\<close> reading. The zone stored in the schedule is not read: the
  decision is the same whatever zones the schedules hold, and when room, schedule and
  store are there it compares the latest value with the target resolved at the
  server's time of day.
\<close>

theorem decision_uses_server_clock:
  "fst (get_heating_status e
          (s\<lparr>room_settings := map (\<lambda>r. r\<lparr>timezone := tz r\<rparr>) (room_settings s)\<rparr>)
          room_id user_id) =
     fst (get_heating_status e s room_id user_id) \<and>
   (mysql_up e \<and> influx_ok e Query \<and> rooms_where s room_id user_id \<noteq> [] \<and>
    settings_where s user_id room_id = schedule # rest \<and>
    as_time (strptime e) (night_start schedule) = Inr ns \<and>
    as_time (strptime e) (night_end schedule) = Inr ne \<longrightarrow>
      fst (get_heating_status e s room_id user_id) =
        (case current_temp_of (flux_last (flux_tables
                 (lookback_rows (now_at e (Suc (clock s))) (bucket s) user_id room_id))) of
           None \<Rightarrow> Inl (HTTPException 404 ''No temperature data found for this room'')
         | Some v \<Rightarrow> Inr (v < target_temp schedule ns ne (time_of (now_at e (clock s))))))"
proof (intro conjI impI)
  let ?s' = "s\<lparr>room_settings := map (\<lambda>r. r\<lparr>timezone := tz r\<rparr>) (room_settings s)\<rparr>"
  have r: "rooms_where ?s' room_id user_id = rooms_where s room_id user_id"
    by (simp add: rooms_where_def)
  have q: "\<And>c. fst (query_last_7d e (?s'\<lparr>clock := c\<rparr>) user_id room_id) =
                fst (query_last_7d e (s\<lparr>clock := c\<rparr>) user_id room_id)"
    by (simp add: query_last_7d_def datetime_now_def)
  show "fst (get_heating_status e ?s' room_id user_id) =
          fst (get_heating_status e s room_id user_id)"
  proof (cases "settings_where s user_id room_id")
    case Nil
    then show ?thesis
      by (simp add: get_heating_status_def select_room_def select_settings_def r
          settings_where_retimed)
  next
    case (Cons st rest)
    then show ?thesis
      using q [of "Suc (clock s)"]
      by (simp add: get_heating_status_def select_room_def select_settings_def r
          settings_where_retimed target_temp_retimed datetime_now_time_def datetime_now_def
          query_last_7d_def
          split: sum.splits prod.splits option.splits)
  qed
next
  assume h: "mysql_up e \<and> influx_ok e Query \<and> rooms_where s room_id user_id \<noteq> [] \<and>
    settings_where s user_id room_id = schedule # rest \<and>
    as_time (strptime e) (night_start schedule) = Inr ns \<and>
    as_time (strptime e) (night_end schedule) = Inr ne"
  have "get_heating_status e s room_id user_id =
     (case current_temp_of (flux_last (flux_tables
              (lookback_rows (now_at e (Suc (clock s))) (bucket s) user_id room_id))) of
        None \<Rightarrow> (Inl (HTTPException 404 ''No temperature data found for this room''),
                 s\<lparr>clock := Suc (Suc (clock s))\<rparr>)
      | Some c \<Rightarrow> (Inr (c < target_temp schedule ns ne (time_of (now_at e (clock s)))),
                 s\<lparr>clock := Suc (Suc (clock s))\<rparr>))"
    using h by (intro get_heating_status_run) auto
  then show "fst (get_heating_status e s room_id user_id) =
        (case current_temp_of (flux_last (flux_tables
                 (lookback_rows (now_at e (Suc (clock s))) (bucket s) user_id room_id))) of
           None \<Rightarrow> Inl (HTTPException 404 ''No temperature data found for this room'')
         | Some v \<Rightarrow> Inr (v < target_temp schedule ns ne (time_of (now_at e (clock s)))))"
    by (simp split: option.splits)
qed

theorem decision_uses_server_clock_witness:
  "fst (get_heating_status demo_env
          (demo_state\<lparr>room_settings :=
             map (\<lambda>r. r\<lparr>timezone := ''Asia/Tokyo''\<rparr>) (room_settings demo_state)\<rparr>) 1 1) =
     Inr True"
proof -
  have h: "mysql_up demo_env \<and> influx_ok demo_env Query \<and> rooms_where demo_state 1 1 \<noteq> [] \<and>
    settings_where demo_state 1 1 = demo_schedule # [] \<and>
    as_time (strptime demo_env) (night_start demo_schedule) = Inr (22, 0, 0, 0) \<and>
    as_time (strptime demo_env) (night_end demo_schedule) = Inr (6, 0, 0, 0)"
    by (simp add: demo_env_def demo_schedule_def int_total_seconds_def py_time_def)
  have v: "(case current_temp_of (flux_last (flux_tables
                 (lookback_rows (now_at demo_env (Suc (clock demo_state))) (bucket demo_state)
                    1 1))) of
           None \<Rightarrow> Inl (HTTPException 404 ''No temperature data found for this room'')
         | Some v \<Rightarrow> Inr (v < target_temp demo_schedule (22, 0, 0, 0) (6, 0, 0, 0)
                                (time_of (now_at demo_env (clock demo_state))))) = Inr True"
    by (simp add: demo_env_def demo_state_def current_temp_of_last demo_point_def
        lookback_rows_def flux_range_def in_series_def seven_days_def)
  show ?thesis
    using decision_uses_server_clock [where e = demo_env and s = demo_state
        and tz = "\<lambda>r. ''Asia/Tokyo''" and room_id = 1 and user_id = 1
        and schedule = demo_schedule and rest = "[]" and ns = "(22, 0, 0, 0)"
        and ne = "(6, 0, 0, 0)"] h v
    by simp
qed

section \<open>Batch ingestion\<close>

text \<open>
  C6, as stated: every batch of more than 100 values fails with the "maximum 100" error.
  It does not: the ownership of the room is checked first, so a batch of 101 values for
  a room the caller does not own fails with 404 "Room not found or access denied".
\<close>

theorem oversized_batch_counterexample:
  "fst (post_temperature_batch demo_env demo_state 1 2 (replicate 101 20) None) =
     Inl (HTTPException 404 ''Room not found or access denied'') \<and>
   fst (post_temperature_batch demo_env demo_state 1 2 (replicate 101 20) None) \<noteq>
     Inl (HTTPException 400 ''Maximum 100 temperatures per request'')"
  by (simp add: post_temperature_batch_def select_room_def rooms_where_def demo_env_def
      demo_state_def)

text \<open>
  C6, amended: a batch of more than 100 values always fails and appends no sample (the
  state is unchanged). With MySQL answering, the failure is 400 "Maximum 100
  temperatures per request" for a room the caller owns and 404 "Room not found or
  access denied" for a room the caller does not own; when MySQL does not answer, it is
  the error of the ownership lookup.
\<close>

theorem oversized_batch_rejected:
  assumes "length temperatures > 100"
  shows "snd (post_temperature_batch e s user_id room_id temperatures timestamps) = s \<and>
         isl (fst (post_temperature_batch e s user_id room_id temperatures timestamps)) \<and>
         (mysql_up e \<and> rooms_where s room_id user_id \<noteq> [] \<longrightarrow>
            fst (post_temperature_batch e s user_id room_id temperatures timestamps) =
              Inl (HTTPException 400 ''Maximum 100 temperatures per request'')) \<and>
         (mysql_up e \<and> rooms_where s room_id user_id = [] \<longrightarrow>
            fst (post_temperature_batch e s user_id room_id temperatures timestamps) =
              Inl (HTTPException 404 ''Room not found or access denied'')) \<and>
         (\<not> mysql_up e \<longrightarrow>
            fst (post_temperature_batch e s user_id room_id temperatures timestamps) =
              Inl MySQLError)"
  using assms by (simp add: post_temperature_batch_def select_room_def)

theorem oversized_batch_rejected_witness:
  "post_temperature_batch demo_env demo_state 1 1 (replicate 101 20) None =
     (Inl (HTTPException 400 ''Maximum 100 temperatures per request''), demo_state) \<and>
   post_temperature_batch demo_env demo_state 3 1 (replicate 101 20) None =
     (Inl (HTTPException 404 ''Room not found or access denied''), demo_state) \<and>
   post_temperature_batch (demo_env\<lparr>mysql_up := False\<rparr>) demo_state 1 1 (replicate 101 20) None =
     (Inl MySQLError, demo_state)"
proof -
  have len: "length (replicate 101 (20::real)) > 100" by simp
  have own: "mysql_up demo_env \<and> rooms_where demo_state 1 1 \<noteq> []"
    by (simp add: demo_env_def)
  have other: "mysql_up demo_env \<and> rooms_where demo_state 1 3 = []"
    by (simp add: demo_env_def rooms_where_def demo_state_def)
  have down: "\<not> mysql_up (demo_env\<lparr>mysql_up := False\<rparr>)"
    by simp
  show ?thesis
    using oversized_batch_rejected [OF len, of demo_env demo_state 1 1 None] own
      oversized_batch_rejected [OF len, of demo_env demo_state 3 1 None] other
      oversized_batch_rejected [OF len, of "demo_env\<lparr>mysql_up := False\<rparr>" demo_state 1 1 None]
      down
    by (simp add: prod_eq_iff)
qed

text \<open>
  C7, as stated: every accepted batch of \<open>N\<close> values writes exactly \<open>N\<close> samples. It
  does not: the write hands each point to the background writer and returns, so with
  a store that refuses every write a batch of three values for the caller's room is
  accepted, three are reported, and the bucket is as it was.
\<close>

theorem batch_ingestion_counterexample:
  "fst (post_temperature_batch (demo_env\<lparr>influx_ok := (\<lambda>op. False)\<rparr>) demo_state 1 1
          [20, 21, 22] None) = Inr 3 \<and>
   bucket (snd (post_temperature_batch (demo_env\<lparr>influx_ok := (\<lambda>op. False)\<rparr>) demo_state 1 1
          [20, 21, 22] None)) = bucket demo_state"
  by (simp add: post_temperature_batch_def select_room_def demo_env_def entry_timestamp_def
      datetime_now_def write_api_write_def demo_state_def rooms_where_def)

text \<open>
  C7, amended: for a batch of \<open>N \<le> 100\<close> values for a room the caller owns, MySQL
  answering, the handler reports \<open>N\<close> and issues exactly \<open>N\<close> writes of the room's
  series with the values in input order; the bucket gains, in that order, the points
  of the writes the store accepts, hence exactly the \<open>N\<close> points when it accepts every
  one. The timestamp of entry \<open>i\<close> is the parsed string supplied at \<open>i\<close> (after \<open>Z\<close>
  became \<open>+00:00\<close>) when there is one and it parses, and otherwise a clock reading of
  its own, taken during the call: the readings \<open>ks\<close> are strictly increasing and none
  is earlier than the call's first. When the clock does not run backwards, every such
  timestamp is at or after the reading at the start of the call.
\<close>

theorem batch_ingestion_issues_every_write:
  assumes "mysql_up e" and "rooms_where s room_id user_id \<noteq> []"
    and "length temperatures \<le> 100"
  shows "\<exists>pts ks.
           fst (post_temperature_batch e s user_id room_id temperatures timestamps) =
             Inr (length temperatures) \<and>
           bucket (snd (post_temperature_batch e s user_id room_id temperatures timestamps)) =
             bucket s @ filter (accepted e) pts \<and>
           ((\<forall>t \<in> set temperatures.
               influx_ok e (Write ''temperature'' user_id (Some room_id) t)) \<longrightarrow>
              bucket (snd (post_temperature_batch e s user_id room_id temperatures timestamps)) =
                bucket s @ pts) \<and>
           length pts = length temperatures \<and>
           map field_value pts = temperatures \<and>
           (\<forall>p \<in> set pts. in_series ''temperature'' user_id (Some room_id) p) \<and>
           length ks = length temperatures \<and> sorted_wrt (<) ks \<and>
           (\<forall>k \<in> set ks. clock s \<le> k) \<and>
           (\<forall>i < length temperatures.
              time_stamp (pts ! i) =
                (case parsed e timestamps i of Some t \<Rightarrow> t | None \<Rightarrow> now_at e (ks ! i))) \<and>
           ((\<forall>j k. j \<le> k \<longrightarrow> now_at e j \<le> now_at e k) \<longrightarrow>
              (\<forall>i < length temperatures.
                 parsed e timestamps i = None \<longrightarrow> now_at e (clock s) \<le> time_stamp (pts ! i)))"
proof -
  obtain pts ks c where run:
    "save_temperatures e s user_id room_id timestamps 0 temperatures =
       s\<lparr>bucket := bucket s @ filter (accepted e) pts, clock := c\<rparr>"
    and facts: "length pts = length temperatures" "length ks = length temperatures"
      "map field_value pts = temperatures"
      "\<forall>p \<in> set pts. in_series ''temperature'' user_id (Some room_id) p"
      "sorted_wrt (<) ks" "\<forall>k \<in> set ks. clock s \<le> k \<and> k < c"
    and stamps: "\<forall>j < length temperatures.
        time_stamp (pts ! j) =
          (case parsed e timestamps (0 + j) of Some t \<Rightarrow> t | None \<Rightarrow> now_at e (ks ! j))"
    using save_temperatures_run [of e s user_id room_id timestamps 0 temperatures] by blast
  have res: "post_temperature_batch e s user_id room_id temperatures timestamps =
               (Inr (length temperatures),
                s\<lparr>bucket := bucket s @ filter (accepted e) pts, clock := c\<rparr>)"
    using assms by (simp add: post_temperature_batch_def select_room_def run)
  have every: "filter (accepted e) pts = pts"
    if "\<forall>t \<in> set temperatures. influx_ok e (Write ''temperature'' user_id (Some room_id) t)"
    using accepted_batch_points [OF that facts(3,4)] .
  have late: "\<forall>i < length temperatures.
                 parsed e timestamps i = None \<longrightarrow> now_at e (clock s) \<le> time_stamp (pts ! i)"
    if mono: "\<forall>j k. j \<le> k \<longrightarrow> now_at e j \<le> now_at e k"
  proof (intro allI impI)
    fix i assume i: "i < length temperatures" and none: "parsed e timestamps i = None"
    have "ks ! i \<in> set ks" using i facts(2) by simp
    then have "clock s \<le> ks ! i" using facts(6) by blast
    then have "now_at e (clock s) \<le> now_at e (ks ! i)" using mono by blast
    then show "now_at e (clock s) \<le> time_stamp (pts ! i)"
      using stamps i none by simp
  qed
  show ?thesis
    using res facts stamps late every
    by (intro exI [of _ pts] exI [of _ ks]) auto
qed

theorem batch_ingestion_issues_every_write_witness:
  "fst (post_temperature_batch demo_env demo_state 1 1 [20, 21, 22]
          (Some [''1970-01-11T00:00:00Z'', ''yesterday''])) = Inr 3 \<and>
   map time_stamp (bucket (snd (post_temperature_batch demo_env demo_state 1 1 [20, 21, 22]
          (Some [''1970-01-11T00:00:00Z'', ''yesterday''])))) =
     [948000000000, 864000000000, 948600000002, 948600000003]"
proof -
  have h: "mysql_up demo_env" "rooms_where demo_state 1 1 \<noteq> []"
    "length [20, 21, 22 :: real] \<le> 100"
    by (simp_all add: demo_env_def)
  have count: "fst (post_temperature_batch demo_env demo_state 1 1 [20, 21, 22]
          (Some [''1970-01-11T00:00:00Z'', ''yesterday''])) = Inr 3"
    using batch_ingestion_issues_every_write [OF h,
        of "Some [''1970-01-11T00:00:00Z'', ''yesterday'']"]
    by auto
  have run: "map time_stamp (bucket (snd (post_temperature_batch demo_env demo_state 1 1
          [20, 21, 22] (Some [''1970-01-11T00:00:00Z'', ''yesterday''])))) =
     [948000000000, 864000000000, 948600000002, 948600000003]"
    by (simp add: post_temperature_batch_def select_room_def demo_env_def entry_timestamp_def
        datetime_now_def write_api_write_def replace_Z_def demo_state_def demo_point_def
        rooms_where_def)
  show ?thesis using count run by simp
qed

section \<open>Range query\<close>

text \<open>
  C9, as stated: an omitted start is 24 hours before the end bound. It is not: at 23:30
  on the eleventh day, a request with the end bound at noon of that day and no start
  returns nothing, although a reading lies eighteen hours before that end; the window
  the specification words would return it. (The handler's window starts 24 hours
  before "now", at 23:30 on the tenth day.)
\<close>

theorem range_default_start_counterexample:
  "fst (get_room_temperatures demo_env early_state 1 1 None (Some ''1970-01-11T12:00:00Z'')) =
     Inr [] \<and>
   range_spec demo_env early_state 1 1 None (Some ''1970-01-11T12:00:00Z'') =
     Inr [\<lparr>tr_time = 842400000000, tr_value = 17.5, tr_room_id = 1\<rparr>]"
  by (simp add: get_room_temperatures_def select_room_def rooms_where_def query_range_def
      datetime_now_def start_flux_def end_flux_def flux_sort_def flux_tables_def
      flux_range_def in_series_def range_spec_def spec_window_def bound_instant_def
      one_day_def response_of_def demo_env_def early_state_def demo_state_def demo_point_def)

text \<open>
  C9, amended: an omitted end bound is "now", and an omitted start bound is 24 hours
  before "now", whatever the end bound is; the samples of the room's series with
  \<open>start \<le> timestamp < end\<close> are returned in ascending order of timestamp. (Room
  owned by the caller, MySQL and the store answering, supplied bounds readable.)
\<close>

theorem range_defaults_anchor_to_now:
  assumes "mysql_up e" and "influx_ok e Query" and "rooms_where s room_id user_id \<noteq> []"
    and "bound_instant e (now_at e (clock s) - one_day) start = Some a"
    and "bound_instant e (now_at e (clock s)) stop = Some b"
  shows "fst (get_room_temperatures e s room_id user_id start stop) =
           Inr (map (response_of room_id)
                  (sort_key time_stamp
                     (filter (in_series ''temperature'' user_id (Some room_id))
                        (flux_range a b (bucket s))))) \<and>
         sorted (map tr_time (map (response_of room_id)
                  (sort_key time_stamp
                     (filter (in_series ''temperature'' user_id (Some room_id))
                        (flux_range a b (bucket s))))))"
proof -
  have resp: "(\<lambda>record. \<lparr>tr_time = time_stamp record, tr_value = field_value record,
                          tr_room_id = room_id\<rparr>) = response_of room_id"
    by (simp add: response_of_def fun_eq_iff)
  have "fst (get_room_temperatures e s room_id user_id start stop) =
           Inr (map (response_of room_id)
                  (sort_key time_stamp
                     (filter (in_series ''temperature'' user_id (Some room_id))
                        (flux_range a b (bucket s)))))"
    using assms
    by (simp add: get_room_temperatures_def select_room_def query_range_def datetime_now_def
        start_flux_value end_flux_value responses_of_tables resp)
  then show ?thesis using sorted_responses by blast
qed

theorem range_defaults_anchor_to_now_witness:
  "fst (get_room_temperatures demo_env demo_state 1 1 None None) =
     Inr [\<lparr>tr_time = 948000000000, tr_value = 17.5, tr_room_id = 1\<rparr>] \<and>
   fst (get_room_temperatures demo_env demo_state 1 1 None (Some ''1970-01-11T12:00:00Z'')) =
     Inr []"
proof -
  have h: "mysql_up demo_env" "influx_ok demo_env Query" "rooms_where demo_state 1 1 \<noteq> []"
    by (simp_all add: demo_env_def)
  have a: "bound_instant demo_env (now_at demo_env (clock demo_state) - one_day) None =
             Some 862200000000"
    and b: "bound_instant demo_env (now_at demo_env (clock demo_state)) None =
             Some 948600000000"
    and b': "bound_instant demo_env (now_at demo_env (clock demo_state))
               (Some ''1970-01-11T12:00:00Z'') = Some 907200000000"
    by (simp_all add: bound_instant_def demo_env_def demo_state_def one_day_def)
  show ?thesis
    using range_defaults_anchor_to_now [OF h a b] range_defaults_anchor_to_now [OF h a b']
    by (simp add: flux_range_def in_series_def response_of_def demo_state_def demo_point_def)
qed

section \<open>Deleting a room\<close>

text \<open>
  C10. For a room the caller owns, MySQL answering, the deletion reports success and
  removes the room's row and, by the cascade, its schedule, whether or not the
  range-delete of the room's samples succeeds: the store's error is caught and only
  logged, and the samples then stay in the bucket.
\<close>

theorem room_deleted_despite_store_failure:
  assumes "mysql_up e" and "rooms_where s room_id user_id \<noteq> []"
  shows "fst (delete_room e s room_id user_id) =
           Inr ''Room and all temperature data deleted successfully'' \<and>
         rooms (snd (delete_room e s room_id user_id)) =
           filter (\<lambda>r. r_id r \<noteq> room_id) (rooms s) \<and>
         room_settings (snd (delete_room e s room_id user_id)) =
           filter (\<lambda>r. s_room_id r \<noteq> room_id) (room_settings s) \<and>
         rooms_where (snd (delete_room e s room_id user_id)) room_id user_id = [] \<and>
         settings_where (snd (delete_room e s room_id user_id)) user_id room_id = [] \<and>
         (\<not> influx_ok e Delete \<longrightarrow>
            bucket (snd (delete_room e s room_id user_id)) = bucket s)"
  using assms
  by (simp add: delete_room_def select_room_def delete_api_delete_def datetime_now_def
      delete_from_rooms_def rooms_where_def settings_where_def filter_empty_conv)

theorem room_deleted_despite_store_failure_witness:
  "delete_room (demo_env\<lparr>influx_ok := (\<lambda>op. False)\<rparr>) demo_state 1 1 =
     (Inr ''Room and all temperature data deleted successfully'',
      demo_state\<lparr>rooms := [], room_settings := [], clock := 1\<rparr>)"
proof -
  have h: "mysql_up (demo_env\<lparr>influx_ok := (\<lambda>op. False)\<rparr>)" "rooms_where demo_state 1 1 \<noteq> []"
    by (simp_all add: demo_env_def)
  have run: "snd (delete_room (demo_env\<lparr>influx_ok := (\<lambda>op. False)\<rparr>) demo_state 1 1) =
               demo_state\<lparr>rooms := [], room_settings := [], clock := 1\<rparr>"
    by (simp add: delete_room_def select_room_def delete_api_delete_def datetime_now_def
        delete_from_rooms_def rooms_where_def demo_env_def demo_state_def demo_schedule_def)
  show ?thesis
    using room_deleted_despite_store_failure [OF h] run
    by (simp add: prod_eq_iff)
qed

section \<open>Weather background task\<close>



end
